theory Spec2Isabelle
  imports Complex_Main
begin

section \<open>The NDVI growth-period heuristic of notebooks/deepmc/mc_forecast.ipynb\<close>

text \<open>
  The notebook loads an NDVI time series into a data frame, smooths the column
  \<^verbatim>\<open>mean\<close> with a rolling mean, differences the smoothed column, and writes the
  constant \<^verbatim>\<open>ndvi_threshold\<close> into two new columns at the rows that satisfy the
  harvest and the germination inequality:
  \<^verbatim>\<open>
  ndvi_threshold = 0.15
  delta_threshold = 0.1
  rolling_window = 14

  df = pd.read_csv(timeseries[0].assets[0].path_or_url)

  df['rolled_mean'] = df['mean'].rolling(window=3).mean()
  df['delta_mean'] = df['rolled_mean'].diff()

  df.loc[(df['rolled_mean'] < ndvi_threshold) & (df['delta_mean'].abs() <= delta_threshold)
         & (df['delta_mean'] < 0), 'harvest_period'] = ndvi_threshold
  df.loc[(df['rolled_mean'] < ndvi_threshold) & (df['delta_mean'].abs() < delta_threshold)
         & (df['delta_mean'] > 0), 'germination_period'] = ndvi_threshold
  \<close>
  A missing entry of a numeric column (pandas' NaN) is \<open>None\<close>; the observed column
  may hold such entries. Numbers are exact reals: the rounding of binary floating
  point is not part of the model, so a statement about a computed value holds of the
  code up to that rounding. The series that exercise an exact boundary below use values
  and thresholds that binary floating point represents and averages exactly.
\<close>

subsection \<open>Data\<close>

text \<open>The three parameters of the parameter cell.\<close>

record params =
  ndvi_threshold :: real
  delta_threshold :: real
  rolling_window :: int

text \<open>
  A field of the CSV column \<^verbatim>\<open>mean\<close>: a number, an empty field, or any other text.
  The frame as \<^verbatim>\<open>read_csv\<close> returns it holds the timestamps of the rows (of any
  type, no cell reads them) and that column.
\<close>

datatype cell = Num real | Empty | Text string


text \<open>
  The frame with the column \<^verbatim>\<open>mean\<close> as a numeric column: an observed value or a
  missing entry per row.
\<close>

record 't ndvi_frame =
  timestamps :: "'t list"
  mean :: "real option list"

text \<open>The frame after the smoothing cell, with its two derived columns.\<close>

record 't smoothed_frame = "'t ndvi_frame" +
  rolled_mean :: "real option list"
  delta_mean :: "real option list"

text \<open>The frame after the labelling cell, with its two label columns.\<close>

record 't labeled_frame = "'t smoothed_frame" +
  harvest_period :: "real option list"
  germination_period :: "real option list"


subsection \<open>The series operations the cells call\<close>

text \<open>The entries of a window that are not missing.\<close>

fun observed :: "real option list \<Rightarrow> real list" where
  "observed [] = []"
| "observed (None # xs) = observed xs"
| "observed (Some x # xs) = x # observed xs"

text \<open>
  The mean of a window: the sum of its observed entries over their number, and missing
  when fewer than \<^verbatim>\<open>min_periods\<close> entries are observed.
\<close>

definition window_mean :: "nat \<Rightarrow> real option list \<Rightarrow> real option" where
  "window_mean minp win =
     (let obs = observed win
      in if length obs < minp then None else Some (sum_list obs / real (length obs)))"

text \<open>
  \<^verbatim>\<open>s.rolling(window=w).mean()\<close>: the window of row \<open>i\<close> is the \<open>w\<close> rows ending at
  \<open>i\<close>, fewer at the start of the column, and \<^verbatim>\<open>min_periods\<close> defaults to \<open>w\<close>.
  So an entry is missing while fewer than \<open>w\<close> rows end there, and wherever its window
  holds a missing entry.
\<close>

definition rolling_mean :: "nat \<Rightarrow> real option list \<Rightarrow> real option list" where
  "rolling_mean w xs =
     map (\<lambda>i. window_mean w (drop (Suc i - w) (take (Suc i) xs))) [0..<length xs]"

text \<open>Subtraction of two entries; missing when either is.\<close>

fun nan_sub :: "real option \<Rightarrow> real option \<Rightarrow> real option" where
  "nan_sub (Some a) (Some b) = Some (a - b)"
| "nan_sub _ _ = None"

text \<open>\<^verbatim>\<open>s.shift(1)\<close>: every entry moves one row down, the first row is missing.\<close>

definition shift1 :: "real option list \<Rightarrow> real option list" where
  "shift1 s = take (length s) (None # s)"

text \<open>\<^verbatim>\<open>s.diff()\<close>: each entry minus the entry of the row before.\<close>

definition diff :: "real option list \<Rightarrow> real option list" where
  "diff s = map2 nan_sub s (shift1 s)"

text \<open>\<^verbatim>\<open>s.abs()\<close>, entry by entry.\<close>

definition series_abs :: "real option list \<Rightarrow> real option list" where
  "series_abs s = map (map_option abs) s"

text \<open>
  The comparisons of a column with a constant, entry by entry. A comparison with a
  missing entry is false.
\<close>

fun nan_lt :: "real option \<Rightarrow> real \<Rightarrow> bool" where
  "nan_lt None c = False"
| "nan_lt (Some a) c = (a < c)"

fun nan_le :: "real option \<Rightarrow> real \<Rightarrow> bool" where
  "nan_le None c = False"
| "nan_le (Some a) c = (a \<le> c)"

fun nan_gt :: "real option \<Rightarrow> real \<Rightarrow> bool" where
  "nan_gt None c = False"
| "nan_gt (Some a) c = (a > c)"

definition series_lt :: "real option list \<Rightarrow> real \<Rightarrow> bool list" where
  "series_lt s c = map (\<lambda>a. nan_lt a c) s"

definition series_le :: "real option list \<Rightarrow> real \<Rightarrow> bool list" where
  "series_le s c = map (\<lambda>a. nan_le a c) s"

definition series_gt :: "real option list \<Rightarrow> real \<Rightarrow> bool list" where
  "series_gt s c = map (\<lambda>a. nan_gt a c) s"

text \<open>The operator \<^verbatim>\<open>&\<close> on two boolean columns.\<close>

definition mask_and :: "bool list \<Rightarrow> bool list \<Rightarrow> bool list" where
  "mask_and a b = map2 (\<and>) a b"

text \<open>
  \<^verbatim>\<open>df.loc[mask, 'new'] = v\<close> on a column that does not exist yet, in a frame that
  has rows: the new column holds \<open>v\<close> at the rows of the mask and is missing elsewhere.
\<close>

definition loc_assign :: "bool list \<Rightarrow> real \<Rightarrow> real option list" where
  "loc_assign m v = map (\<lambda>b. if b then Some v else None) m"

subsection \<open>The cells on a numeric column\<close>

text \<open>
  What the cells compute when they do not raise. The smoothing cell passes the literal
  3 of the source as the window.
\<close>

definition smoothing_cell :: "'t ndvi_frame \<Rightarrow> 't smoothed_frame" where
  "smoothing_cell df =
     (let rm = rolling_mean 3 (mean df)
      in \<lparr>timestamps = timestamps df, mean = mean df,
          rolled_mean = rm, delta_mean = diff rm\<rparr>)"

text \<open>The two masks of the labelling cell.\<close>

definition harvest_mask :: "params \<Rightarrow> 't smoothed_frame \<Rightarrow> bool list" where
  "harvest_mask p df =
     mask_and (mask_and (series_lt (rolled_mean df) (ndvi_threshold p))
                        (series_le (series_abs (delta_mean df)) (delta_threshold p)))
              (series_lt (delta_mean df) 0)"

definition germination_mask :: "params \<Rightarrow> 't smoothed_frame \<Rightarrow> bool list" where
  "germination_mask p df =
     mask_and (mask_and (series_lt (rolled_mean df) (ndvi_threshold p))
                        (series_lt (series_abs (delta_mean df)) (delta_threshold p)))
              (series_gt (delta_mean df) 0)"

definition labeling_cell :: "params \<Rightarrow> 't smoothed_frame \<Rightarrow> 't labeled_frame" where
  "labeling_cell p df =
     \<lparr>timestamps = timestamps df, mean = mean df,
      rolled_mean = rolled_mean df, delta_mean = delta_mean df,
      harvest_period = loc_assign (harvest_mask p df) (ndvi_threshold p),
      germination_period = loc_assign (germination_mask p df) (ndvi_threshold p)\<rparr>"

text \<open>The detector: the parameter cell, then the smoothing cell, then the labelling cell.\<close>

definition detector :: "params \<Rightarrow> 't ndvi_frame \<Rightarrow> 't labeled_frame" where
  "detector p df = labeling_cell p (smoothing_cell df)"

subsection \<open>A run of the cells on the frame read from the CSV file\<close>







subsection \<open>The specification's smoothed series\<close>

text \<open>
  The smoothed series in the words of the specification: a moving average over the
  configured number of consecutive observations ending at each index, undefined
  before the window is filled.
\<close>

definition spec_smoothed :: "nat \<Rightarrow> real list \<Rightarrow> real option list" where
  "spec_smoothed w xs =
     map (\<lambda>i. if w \<le> Suc i
              then Some (sum_list (map (\<lambda>j. xs ! (Suc i - w + j)) [0..<w]) / real w)
              else None)
         [0..<length xs]"

subsection \<open>Parameters and series used below\<close>

text \<open>The parameter cell as the notebook has it, and the series of the specification's example.\<close>

definition notebook_params :: params where
  "notebook_params = \<lparr>ndvi_threshold = 0.15, delta_threshold = 0.1, rolling_window = 14\<rparr>"

definition example_params :: params where
  "example_params = \<lparr>ndvi_threshold = 0.15, delta_threshold = 0.1, rolling_window = 3\<rparr>"

definition example_frame :: "nat ndvi_frame" where
  "example_frame =
     \<lparr>timestamps = [1, 2, 3, 4, 5, 6, 7, 8, 9],
      mean = map Some [0.5, 0.4, 0.3, 0.2, 0.14, 0.13, 0.12, 0.14, 0.16]\<rparr>"

text \<open>
  A series whose smoothed value falls by exactly the delta threshold at row 3 and rises
  by exactly the delta threshold at row 4, both below the index threshold. Its values,
  the smoothed values 0.75, 0.5, 0.75 and the thresholds are exact in binary floating
  point.
\<close>

definition asymmetry_params :: params where
  "asymmetry_params = \<lparr>ndvi_threshold = 1, delta_threshold = 0.25, rolling_window = 3\<rparr>"

definition asymmetry_frame :: "nat ndvi_frame" where
  "asymmetry_frame =
     \<lparr>timestamps = [1, 2, 3, 4, 5], mean = map Some [0.75, 0.75, 0.75, 0, 1.5]\<rparr>"

text \<open>Three rows: fewer than the configured \<^verbatim>\<open>rolling_window\<close> of 14.\<close>

definition short_frame :: "nat ndvi_frame" where
  "short_frame = \<lparr>timestamps = [1, 2, 3], mean = map Some [0.3, 0.2, 0.1]\<rparr>"

text \<open>Five rows of slowly falling values below the index threshold.\<close>

definition falling_frame :: "nat ndvi_frame" where
  "falling_frame =
     \<lparr>timestamps = [1, 2, 3, 4, 5], mean = map Some [0.14, 0.13, 0.12, 0.11, 0.10]\<rparr>"

text \<open>A constant series.\<close>

definition constant_frame :: "nat ndvi_frame" where
  "constant_frame = \<lparr>timestamps = [1, 2, 3, 4, 5], mean = replicate 5 (Some 0.1)\<rparr>"

text \<open>The values of the example under timestamps that are unordered and repeated.\<close>

definition shuffled_example_frame :: "int ndvi_frame" where
  "shuffled_example_frame =
     \<lparr>timestamps = [4, 2, 2, 1, 9, 3, 3, 3, - 1],
      mean = map Some [0.5, 0.4, 0.3, 0.2, 0.14, 0.13, 0.12, 0.14, 0.16]\<rparr>"

text \<open>
  A series with a missing observation at row 2, with the configured window equal to the
  window of the cell.
\<close>

definition gap_frame :: "nat ndvi_frame" where
  "gap_frame =
     \<lparr>timestamps = [1, 2, 3, 4, 5, 6, 7],
      mean = [Some 0.5, Some 0.25, None, Some 0.25, Some 0.5, Some 0.75, Some 1]\<rparr>"




section \<open>Rows of the derived columns\<close>

lemma observed_map_Some [simp]: "observed (map Some ys) = ys"
  by (induction ys) simp_all

lemma length_observed_le: "length (observed xs) \<le> length xs"
  by (induction xs rule: observed.induct) simp_all

lemma observed_no_missing: "None \<notin> set xs \<Longrightarrow> map Some (observed xs) = xs"
  by (induction xs rule: observed.induct) simp_all

lemma length_rolling_mean [simp]: "length (rolling_mean w xs) = length xs"
  by (simp add: rolling_mean_def)

lemma length_shift1 [simp]: "length (shift1 s) = length s"
  by (simp add: shift1_def)

lemma length_diff [simp]: "length (diff s) = length s"
  by (simp add: diff_def)

lemma nth_rolling_mean:
  "i < length xs \<Longrightarrow>
   rolling_mean w xs ! i = window_mean w (drop (Suc i - w) (take (Suc i) xs))"
  by (simp add: rolling_mean_def)

lemma nth_rolling_mean_Some:
  assumes "i < length ys"
  shows "rolling_mean w (map Some ys) ! i =
     (if Suc i < w then None
      else Some (sum_list (drop (Suc i - w) (take (Suc i) ys)) / real (min w (Suc i))))"
proof -
  have "drop (Suc i - w) (take (Suc i) (map Some ys))
      = map Some (drop (Suc i - w) (take (Suc i) ys))"
    by (simp add: drop_map take_map)
  moreover have "length (drop (Suc i - w) (take (Suc i) ys)) = min w (Suc i)"
    using assms by auto
  ultimately show ?thesis
    using assms by (auto simp add: nth_rolling_mean window_mean_def Let_def)
qed

lemma rolling_mean_start:
  assumes "i < length xs" and "Suc i < w"
  shows "rolling_mean w xs ! i = None"
proof -
  have "length (observed (drop (Suc i - w) (take (Suc i) xs))) \<le> Suc i"
    using length_observed_le [of "drop (Suc i - w) (take (Suc i) xs)"] by simp
  with assms show ?thesis
    by (simp add: nth_rolling_mean window_mean_def Let_def)
qed

lemma nth_shift1:
  "i < length s \<Longrightarrow> shift1 s ! i = (case i of 0 \<Rightarrow> None | Suc j \<Rightarrow> s ! j)"
  by (simp add: shift1_def split: nat.split)

lemma nth_diff:
  "i < length s \<Longrightarrow>
   diff s ! i = (case i of 0 \<Rightarrow> None | Suc j \<Rightarrow> nan_sub (s ! i) (s ! j))"
  by (simp add: diff_def nth_shift1 split: nat.split)

lemma length_loc_assign [simp]: "length (loc_assign m v) = length m"
  by (simp add: loc_assign_def)

lemma length_mask_and [simp]: "length (mask_and a b) = min (length a) (length b)"
  by (simp add: mask_and_def)

lemma rolled_mean_detector:
  "rolled_mean (detector p df) = rolling_mean 3 (mean df)"
  by (simp add: detector_def labeling_cell_def smoothing_cell_def Let_def)

lemma delta_mean_detector:
  "delta_mean (detector p df) = diff (rolling_mean 3 (mean df))"
  by (simp add: detector_def labeling_cell_def smoothing_cell_def Let_def)



lemma length_harvest_mask [simp]:
  "length (harvest_mask p (smoothing_cell df)) = length (mean df)"
  by (simp add: harvest_mask_def smoothing_cell_def Let_def series_lt_def series_le_def
      series_abs_def)

lemma length_germination_mask [simp]:
  "length (germination_mask p (smoothing_cell df)) = length (mean df)"
  by (simp add: germination_mask_def smoothing_cell_def Let_def series_lt_def series_gt_def
      series_abs_def)

lemma length_harvest_period [simp]:
  "length (harvest_period (detector p df)) = length (mean df)"
  by (simp add: detector_def labeling_cell_def)

lemma length_germination_period [simp]:
  "length (germination_period (detector p df)) = length (mean df)"
  by (simp add: detector_def labeling_cell_def)

lemma nth_harvest_period:
  assumes "i < length (mean df)"
  shows "harvest_period (detector p df) ! i =
     (if nan_lt (rolled_mean (detector p df) ! i) (ndvi_threshold p)
         \<and> nan_le (map_option abs (delta_mean (detector p df) ! i)) (delta_threshold p)
         \<and> nan_lt (delta_mean (detector p df) ! i) 0
      then Some (ndvi_threshold p) else None)"
  using assms
  by (simp add: detector_def labeling_cell_def loc_assign_def harvest_mask_def mask_and_def
      series_lt_def series_le_def series_abs_def smoothing_cell_def Let_def)

lemma nth_germination_period:
  assumes "i < length (mean df)"
  shows "germination_period (detector p df) ! i =
     (if nan_lt (rolled_mean (detector p df) ! i) (ndvi_threshold p)
         \<and> nan_lt (map_option abs (delta_mean (detector p df) ! i)) (delta_threshold p)
         \<and> nan_gt (delta_mean (detector p df) ! i) 0
      then Some (ndvi_threshold p) else None)"
  using assms
  by (simp add: detector_def labeling_cell_def loc_assign_def germination_mask_def mask_and_def
      series_lt_def series_gt_def series_abs_def smoothing_cell_def Let_def)

lemma nan_lt_defined: "nan_lt a c \<Longrightarrow> a \<noteq> None"
  by (cases a) simp_all

lemma nan_gt_defined: "nan_gt a c \<Longrightarrow> a \<noteq> None"
  by (cases a) simp_all

lemma label_needs_defined:
  assumes "i < length (mean df)"
    and "harvest_period (detector p df) ! i \<noteq> None
         \<or> germination_period (detector p df) ! i \<noteq> None"
  shows "rolled_mean (detector p df) ! i \<noteq> None \<and> delta_mean (detector p df) ! i \<noteq> None"
proof -
  have "nan_lt (rolled_mean (detector p df) ! i) (ndvi_threshold p)"
    and "nan_lt (delta_mean (detector p df) ! i) 0 \<or> nan_gt (delta_mean (detector p df) ! i) 0"
    using assms
    by (auto simp add: nth_harvest_period nth_germination_period split: if_splits)
  then show ?thesis by (blast dest: nan_lt_defined nan_gt_defined)
qed

lemma delta_is_difference:
  assumes "i < length (mean df)" and "0 < i"
    and "rolled_mean (detector p df) ! i = Some a"
    and "rolled_mean (detector p df) ! (i - 1) = Some b"
  shows "delta_mean (detector p df) ! i = Some (a - b)"
  using assms
  by (cases i) (simp_all add: rolled_mean_detector delta_mean_detector nth_diff)

lemma delta_missing_operand:
  assumes "i < length (mean df)"
    and "i = 0 \<or> rolled_mean (detector p df) ! i = None
         \<or> rolled_mean (detector p df) ! (i - 1) = None"
  shows "delta_mean (detector p df) ! i = None"
  using assms
  by (cases i) (auto simp add: rolled_mean_detector delta_mean_detector nth_diff)

text \<open>
  On a column without missing observations the window 3 of the cell leaves exactly the
  first two rows of the smoothed column and the first three rows of the delta column
  undefined.
\<close>

lemma nth_rolled_3:
  "i < length ys \<Longrightarrow> rolling_mean 3 (map Some ys) ! i =
     (if i < 2 then None else Some (sum_list (drop (i - 2) (take (Suc i) ys)) / 3))"
  by (simp add: nth_rolling_mean_Some)

lemma rolled_3_None_iff:
  assumes "None \<notin> set xs" and "i < length xs"
  shows "rolling_mean 3 xs ! i = None \<longleftrightarrow> i < 2"
proof -
  from assms(1) have xs: "map Some (observed xs) = xs"
    by (rule observed_no_missing)
  then have "length (observed xs) = length xs"
    by (metis length_map)
  with assms(2) have "rolling_mean 3 (map Some (observed xs)) ! i = None \<longleftrightarrow> i < 2"
    by (simp add: nth_rolled_3)
  with xs show ?thesis by simp
qed

lemma diff_rolled_3_None_iff:
  assumes "None \<notin> set xs" and "i < length xs"
  shows "diff (rolling_mean 3 xs) ! i = None \<longleftrightarrow> i < 3"
proof (cases i)
  case 0
  with assms show ?thesis by (simp add: nth_diff)
next
  case (Suc j)
  with assms have j: "j < length xs" by simp
  have "rolling_mean 3 xs ! Suc j = None \<longleftrightarrow> Suc j < 2"
    and "rolling_mean 3 xs ! j = None \<longleftrightarrow> j < 2"
    using assms Suc j by (simp_all add: rolled_3_None_iff)
  then have "nan_sub (rolling_mean 3 xs ! Suc j) (rolling_mean 3 xs ! j) = None \<longleftrightarrow> j < 2"
    by (cases "rolling_mean 3 xs ! Suc j"; cases "rolling_mean 3 xs ! j") auto
  with assms Suc show ?thesis by (auto simp add: nth_diff)
qed

lemma rolled_3_replicate:
  assumes "i < n" and "2 \<le> i"
  shows "rolling_mean 3 (replicate n (Some c)) ! i = Some c"
proof -
  let ?win = "drop (i - 2) (take (Suc i) (replicate n c))"
  have "?win = replicate (min (Suc i) n - (i - 2)) c"
    by (simp only: take_replicate drop_replicate)
  moreover from assms have "min (Suc i) n - (i - 2) = 3" by simp
  ultimately have s: "sum_list ?win = 3 * c"
    by (simp only: sum_list_replicate)
  have "rolling_mean 3 (map Some (replicate n c)) ! i =
      (if i < 2 then None else Some (sum_list ?win / 3))"
    using assms by (intro nth_rolled_3) simp
  also have "\<dots> = Some c"
    using assms by (simp only: s) simp
  finally show ?thesis by simp
qed

lemma shorter_than_3_unlabelled:
  assumes "length (mean df) < 3" and "i < length (mean df)"
  shows "harvest_period (detector p df) ! i = None
       \<and> germination_period (detector p df) ! i = None"
proof -
  from assms have "rolled_mean (detector p df) ! i = None"
    by (simp add: rolled_mean_detector rolling_mean_start)
  with assms(2) show ?thesis
    by (simp add: nth_harvest_period nth_germination_period)
qed

section \<open>The smoothing cell against the specification's smoothed series\<close>

text \<open>
  On observations without gaps the library call computes the specification's moving
  average for the window it is given, and the cell gives it the window 3, whatever
  \<^verbatim>\<open>rolling_window\<close> holds.
\<close>

lemma drop_take_nth:
  "w \<le> Suc i \<Longrightarrow> i < length ys \<Longrightarrow>
   drop (Suc i - w) (take (Suc i) ys) = map (\<lambda>j. ys ! (Suc i - w + j)) [0..<w]"
  by (auto simp add: list_eq_iff_nth_eq)

lemma rolling_mean_eq_spec: "rolling_mean w (map Some ys) = spec_smoothed w ys"
proof (rule nth_equalityI)
  show "length (rolling_mean w (map Some ys)) = length (spec_smoothed w ys)"
    by (simp add: spec_smoothed_def)
next
  fix i assume "i < length (rolling_mean w (map Some ys))"
  then have i: "i < length ys" by simp
  show "rolling_mean w (map Some ys) ! i = spec_smoothed w ys ! i"
  proof (cases "w \<le> Suc i")
    case True
    then have "min w (Suc i) = w" by simp
    with i True show ?thesis
      by (simp add: nth_rolling_mean_Some spec_smoothed_def drop_take_nth)
  next
    case False
    with i show ?thesis by (simp add: nth_rolling_mean_Some spec_smoothed_def)
  qed
qed

lemma smoothing_is_window_3:
  assumes "None \<notin> set (mean df)"
  shows "rolled_mean (detector p df) = spec_smoothed 3 (observed (mean df))"
proof -
  from assms have "mean df = map Some (observed (mean df))"
    by (simp add: observed_no_missing)
  then have "rolling_mean 3 (mean df) = spec_smoothed 3 (observed (mean df))"
    using rolling_mean_eq_spec [of 3 "observed (mean df)"] by simp
  then show ?thesis by (simp add: rolled_mean_detector)
qed

section \<open>The detector on the example series\<close>

lemma example_rolled:
  "rolled_mean (detector example_params example_frame) =
     [None, None, Some 0.4, Some 0.3, Some (16 / 75), Some (47 / 300),
      Some 0.13, Some 0.13, Some 0.14]"
  by (simp add: rolled_mean_detector rolling_mean_def window_mean_def Let_def
      example_frame_def upt_rec)

lemma example_delta:
  "delta_mean (detector example_params example_frame) =
     [None, None, None, Some (- 0.1), Some (- (13 / 150)), Some (- (17 / 300)),
      Some (- (2 / 75)), Some 0, Some 0.01]"
  by (simp add: delta_mean_detector rolling_mean_def window_mean_def Let_def diff_def
      shift1_def example_frame_def upt_rec)

lemma example_harvest:
  "harvest_period (detector example_params example_frame) =
     [None, None, None, None, None, None, Some 0.15, None, None]"
  by (simp add: detector_def labeling_cell_def loc_assign_def harvest_mask_def mask_and_def
      series_lt_def series_le_def series_abs_def smoothing_cell_def Let_def rolling_mean_def
      window_mean_def diff_def shift1_def example_frame_def example_params_def upt_rec)

lemma example_germination:
  "germination_period (detector example_params example_frame) =
     [None, None, None, None, None, None, None, None, Some 0.15]"
  by (simp add: detector_def labeling_cell_def loc_assign_def germination_mask_def mask_and_def
      series_lt_def series_gt_def series_abs_def smoothing_cell_def Let_def rolling_mean_def
      window_mean_def diff_def shift1_def example_frame_def example_params_def upt_rec)

lemma asymmetry_rolled:
  "rolled_mean (detector asymmetry_params asymmetry_frame) =
     [None, None, Some 0.75, Some 0.5, Some 0.75]"
  by (simp add: rolled_mean_detector rolling_mean_def window_mean_def Let_def
      asymmetry_frame_def upt_rec)

lemma asymmetry_delta:
  "delta_mean (detector asymmetry_params asymmetry_frame) =
     [None, None, None, Some (- 0.25), Some 0.25]"
  by (simp add: delta_mean_detector rolling_mean_def window_mean_def Let_def diff_def
      shift1_def asymmetry_frame_def upt_rec)

lemma asymmetry_harvest:
  "harvest_period (detector asymmetry_params asymmetry_frame) =
     [None, None, None, Some 1, None]"
  by (simp add: detector_def labeling_cell_def loc_assign_def harvest_mask_def mask_and_def
      series_lt_def series_le_def series_abs_def smoothing_cell_def Let_def rolling_mean_def
      window_mean_def diff_def shift1_def asymmetry_frame_def asymmetry_params_def upt_rec)

lemma asymmetry_germination:
  "germination_period (detector asymmetry_params asymmetry_frame) =
     [None, None, None, None, None]"
  by (simp add: detector_def labeling_cell_def loc_assign_def germination_mask_def mask_and_def
      series_lt_def series_gt_def series_abs_def smoothing_cell_def Let_def rolling_mean_def
      window_mean_def diff_def shift1_def asymmetry_frame_def asymmetry_params_def upt_rec)

lemma gap_rolled:
  "rolled_mean (detector example_params gap_frame) =
     [None, None, None, None, None, Some 0.5, Some 0.75]"
  by (simp add: rolled_mean_detector rolling_mean_def window_mean_def Let_def
      gap_frame_def upt_rec)

lemma gap_delta:
  "delta_mean (detector example_params gap_frame) =
     [None, None, None, None, None, None, Some 0.25]"
  by (simp add: delta_mean_detector rolling_mean_def window_mean_def Let_def diff_def
      shift1_def gap_frame_def upt_rec)

section \<open>Runs that raise\<close>


section \<open>The claims of the specification\<close>

subsection \<open>Harvest rule\<close>

text \<open>
  C1. At every row where the smoothed value \<open>r\<close> and the delta \<open>d\<close> are both
  defined, the row receives the Harvest label if and only if \<open>r\<close> is strictly below
  the index threshold, the magnitude of \<open>d\<close> is at most the delta threshold, and
  \<open>d\<close> is strictly negative.
\<close>

theorem harvest_label_iff:
  assumes "i < length (mean df)"
    and "rolled_mean (detector p df) ! i = Some r"
    and "delta_mean (detector p df) ! i = Some d"
  shows "harvest_period (detector p df) ! i \<noteq> None \<longleftrightarrow>
           r < ndvi_threshold p \<and> \<bar>d\<bar> \<le> delta_threshold p \<and> d < 0"
  using assms by (auto simp add: nth_harvest_period)

text \<open>Row 6 of the example series satisfies the hypotheses and is labelled.\<close>

theorem harvest_label_iff_witness:
  "6 < length (mean example_frame)
   \<and> rolled_mean (detector example_params example_frame) ! 6 = Some 0.13
   \<and> delta_mean (detector example_params example_frame) ! 6 = Some (- (2 / 75))
   \<and> (harvest_period (detector example_params example_frame) ! 6 \<noteq> None \<longleftrightarrow>
        0.13 < ndvi_threshold example_params
        \<and> \<bar>- (2 / 75)\<bar> \<le> delta_threshold example_params \<and> - (2 / 75) < (0::real))
   \<and> harvest_period (detector example_params example_frame) ! 6 \<noteq> None"
proof -
  have h1: "6 < length (mean example_frame)"
    by (simp add: example_frame_def)
  have h2: "rolled_mean (detector example_params example_frame) ! 6 = Some 0.13"
    by (simp add: example_rolled)
  have h3: "delta_mean (detector example_params example_frame) ! 6 = Some (- (2 / 75))"
    by (simp add: example_delta)
  show ?thesis
    using harvest_label_iff [OF h1 h2 h3] h1 h2 h3 by (simp add: example_harvest)
qed

subsection \<open>Germination rule and the asymmetry of the two rules\<close>

text \<open>
  C2. At every row where the smoothed value \<open>r\<close> and the delta \<open>d\<close> are both
  defined, the row receives the Germination label if and only if \<open>r\<close> is strictly
  below the index threshold, the magnitude of \<open>d\<close> is strictly below the delta
  threshold, and \<open>d\<close> is strictly positive. Where the magnitude of \<open>d\<close> equals the
  delta threshold exactly, no Germination label is given, while a falling delta below the
  index threshold still receives Harvest.
\<close>

theorem germination_label_iff:
  assumes "i < length (mean df)"
    and "rolled_mean (detector p df) ! i = Some r"
    and "delta_mean (detector p df) ! i = Some d"
  shows "(germination_period (detector p df) ! i \<noteq> None \<longleftrightarrow>
            r < ndvi_threshold p \<and> \<bar>d\<bar> < delta_threshold p \<and> 0 < d)
       \<and> (\<bar>d\<bar> = delta_threshold p \<longrightarrow> germination_period (detector p df) ! i = None)
       \<and> (\<bar>d\<bar> = delta_threshold p \<and> d < 0 \<and> r < ndvi_threshold p \<longrightarrow>
            harvest_period (detector p df) ! i \<noteq> None)"
proof -
  have g: "germination_period (detector p df) ! i =
      (if r < ndvi_threshold p \<and> \<bar>d\<bar> < delta_threshold p \<and> 0 < d
       then Some (ndvi_threshold p) else None)"
    using assms by (simp add: nth_germination_period)
  have h: "harvest_period (detector p df) ! i =
      (if r < ndvi_threshold p \<and> \<bar>d\<bar> \<le> delta_threshold p \<and> d < 0
       then Some (ndvi_threshold p) else None)"
    using assms by (simp add: nth_harvest_period)
  show ?thesis
    unfolding g h by auto
qed

text \<open>
  With index threshold 1 and delta threshold 0.25 on the series 0.75, 0.75, 0.75, 0, 1.5,
  whose smoothed values 0.75, 0.5, 0.75 and deltas are exact in binary floating point
  too: row 3 falls by exactly the delta threshold and is labelled Harvest; row 4 rises by
  exactly the delta threshold and is not labelled Germination.
\<close>

theorem germination_label_iff_witness:
  "(3 < length (mean asymmetry_frame)
    \<and> rolled_mean (detector asymmetry_params asymmetry_frame) ! 3 = Some 0.5
    \<and> delta_mean (detector asymmetry_params asymmetry_frame) ! 3 = Some (- 0.25)
    \<and> \<bar>- 0.25 :: real\<bar> = delta_threshold asymmetry_params
    \<and> (- 0.25 :: real) < 0 \<and> 0.5 < ndvi_threshold asymmetry_params
    \<and> harvest_period (detector asymmetry_params asymmetry_frame) ! 3 \<noteq> None
    \<and> germination_period (detector asymmetry_params asymmetry_frame) ! 3 = None)
   \<and> (4 < length (mean asymmetry_frame)
    \<and> rolled_mean (detector asymmetry_params asymmetry_frame) ! 4 = Some 0.75
    \<and> delta_mean (detector asymmetry_params asymmetry_frame) ! 4 = Some 0.25
    \<and> \<bar>0.25 :: real\<bar> = delta_threshold asymmetry_params
    \<and> 0.75 < ndvi_threshold asymmetry_params
    \<and> germination_period (detector asymmetry_params asymmetry_frame) ! 4 = None)"
proof -
  have l3: "3 < length (mean asymmetry_frame)" and l4: "4 < length (mean asymmetry_frame)"
    by (simp_all add: asymmetry_frame_def)
  have r3: "rolled_mean (detector asymmetry_params asymmetry_frame) ! 3 = Some 0.5"
    and r4: "rolled_mean (detector asymmetry_params asymmetry_frame) ! 4 = Some 0.75"
    by (simp_all add: asymmetry_rolled)
  have d3: "delta_mean (detector asymmetry_params asymmetry_frame) ! 3 = Some (- 0.25)"
    and d4: "delta_mean (detector asymmetry_params asymmetry_frame) ! 4 = Some 0.25"
    by (simp_all add: asymmetry_delta)
  have t: "delta_threshold asymmetry_params = 0.25" "ndvi_threshold asymmetry_params = 1"
    by (simp_all add: asymmetry_params_def)
  show ?thesis
    using germination_label_iff [OF l3 r3 d3] germination_label_iff [OF l4 r4 d4]
      l3 l4 r3 r4 d3 d4 t
    by simp
qed

subsection \<open>The window of the smoothing step\<close>

text \<open>
  C3. The specification has the smoothing step use the configured window. The cell
  passes the literal 3: with the notebook's own \<^verbatim>\<open>rolling_window = 14\<close> and a series
  of three rows, the cell's smoothed column is defined at row 2 (the mean 0.2 of the three
  rows), where the smoothed series of window 14 is undefined everywhere.
\<close>

theorem fixed_window_ignores_rolling_window:
  "rolling_window notebook_params = 14
   \<and> mean short_frame = map Some [0.3, 0.2, 0.1]
   \<and> rolled_mean (detector notebook_params short_frame) = [None, None, Some 0.2]
   \<and> spec_smoothed (nat (rolling_window notebook_params)) [0.3, 0.2, 0.1]
       = [None, None, None]"
  by (simp add: rolled_mean_detector rolling_mean_def window_mean_def Let_def
      spec_smoothed_def short_frame_def notebook_params_def upt_rec)

subsection \<open>Validation of the input\<close>




subsection \<open>Alignment of the derived columns\<close>

text \<open>
  C5, as stated, fails: the undefined rows are not only leading ones. With the window 3,
  configured and used, a series of seven rows whose row 2 is a missing observation has
  its smoothed column undefined at rows 0 to 4 and its delta column undefined at rows
  0 to 5, beyond the first \<open>3 - 1\<close> and the first 3 rows.
\<close>

theorem missing_observation_counterexample:
  "rolling_window example_params = 3
   \<and> mean gap_frame = [Some 0.5, Some 0.25, None, Some 0.25, Some 0.5, Some 0.75, Some 1]
   \<and> rolled_mean (detector example_params gap_frame)
       = [None, None, None, None, None, Some 0.5, Some 0.75]
   \<and> delta_mean (detector example_params gap_frame)
       = [None, None, None, None, None, None, Some 0.25]"
  by (simp add: gap_rolled gap_delta) (simp add: example_params_def gap_frame_def)

text \<open>
  C5, amended. The smoothed and the delta column have as many rows as the input. The
  delta of a row is the smoothed value of the row minus the smoothed value of the row
  before where both are defined, and is undefined at the first row and wherever either
  of the two is undefined. A row with a Harvest or Germination label has both its
  smoothed value and its delta defined. In a series without missing observations only
  leading rows are undefined: below an undefined row of the smoothed column every row
  of it is undefined, and likewise for the delta column.
\<close>

theorem derived_columns_aligned:
  assumes "i < length (mean df)"
  shows "length (rolled_mean (detector p df)) = length (mean df)
       \<and> length (delta_mean (detector p df)) = length (mean df)
       \<and> (\<forall>a b. 0 < i \<and> rolled_mean (detector p df) ! i = Some a
               \<and> rolled_mean (detector p df) ! (i - 1) = Some b \<longrightarrow>
            delta_mean (detector p df) ! i = Some (a - b))
       \<and> (i = 0 \<or> rolled_mean (detector p df) ! i = None
             \<or> rolled_mean (detector p df) ! (i - 1) = None \<longrightarrow>
            delta_mean (detector p df) ! i = None)
       \<and> (harvest_period (detector p df) ! i \<noteq> None
             \<or> germination_period (detector p df) ! i \<noteq> None \<longrightarrow>
            rolled_mean (detector p df) ! i \<noteq> None \<and> delta_mean (detector p df) ! i \<noteq> None)
       \<and> (None \<notin> set (mean df) \<and> rolled_mean (detector p df) ! i = None \<longrightarrow>
            (\<forall>j. j \<le> i \<longrightarrow> rolled_mean (detector p df) ! j = None))
       \<and> (None \<notin> set (mean df) \<and> delta_mean (detector p df) ! i = None \<longrightarrow>
            (\<forall>j. j \<le> i \<longrightarrow> delta_mean (detector p df) ! j = None))"
proof -
  have c1: "length (rolled_mean (detector p df)) = length (mean df)"
    and c2: "length (delta_mean (detector p df)) = length (mean df)"
    by (simp_all add: rolled_mean_detector delta_mean_detector)
  have c3: "delta_mean (detector p df) ! i = Some (a - b)"
    if "0 < i \<and> rolled_mean (detector p df) ! i = Some a
        \<and> rolled_mean (detector p df) ! (i - 1) = Some b" for a b
    using assms that by (simp add: delta_is_difference)
  have c4: "delta_mean (detector p df) ! i = None"
    if "i = 0 \<or> rolled_mean (detector p df) ! i = None
        \<or> rolled_mean (detector p df) ! (i - 1) = None"
    using assms that by (rule delta_missing_operand)
  have c5: "rolled_mean (detector p df) ! i \<noteq> None \<and> delta_mean (detector p df) ! i \<noteq> None"
    if "harvest_period (detector p df) ! i \<noteq> None
        \<or> germination_period (detector p df) ! i \<noteq> None"
    using assms that by (rule label_needs_defined)
  have c6: "rolled_mean (detector p df) ! j = None"
    if "None \<notin> set (mean df) \<and> rolled_mean (detector p df) ! i = None" and "j \<le> i" for j
  proof -
    from that have nm: "None \<notin> set (mean df)"
      and ri: "rolling_mean 3 (mean df) ! i = None"
      by (simp_all add: rolled_mean_detector)
    from ri have "i < 2"
      using rolled_3_None_iff [OF nm assms] by simp
    with that(2) assms have "j < 2" and "j < length (mean df)" by simp_all
    then show ?thesis
      using rolled_3_None_iff [OF nm, of j] by (simp add: rolled_mean_detector)
  qed
  have c7: "delta_mean (detector p df) ! j = None"
    if "None \<notin> set (mean df) \<and> delta_mean (detector p df) ! i = None" and "j \<le> i" for j
  proof -
    from that have nm: "None \<notin> set (mean df)"
      and di: "diff (rolling_mean 3 (mean df)) ! i = None"
      by (simp_all add: delta_mean_detector)
    from di have "i < 3"
      using diff_rolled_3_None_iff [OF nm assms] by simp
    with that(2) assms have "j < 3" and "j < length (mean df)" by simp_all
    then show ?thesis
      using diff_rolled_3_None_iff [OF nm, of j] by (simp add: delta_mean_detector)
  qed
  from c1 c2 c3 c4 c5 c6 c7 show ?thesis by blast
qed

text \<open>
  Row 3 of the series 0.75, 0.75, 0.75, 0, 1.5 is labelled, and its delta is the
  difference of the smoothed values 0.5 and 0.75; row 2 has no delta, its predecessor
  having no smoothed value, and no row above has one; row 1 has no smoothed value and
  neither has row 0.
\<close>

theorem derived_columns_aligned_witness:
  "(3 < length (mean asymmetry_frame)
    \<and> rolled_mean (detector asymmetry_params asymmetry_frame) ! 3 = Some 0.5
    \<and> rolled_mean (detector asymmetry_params asymmetry_frame) ! (3 - 1) = Some 0.75
    \<and> delta_mean (detector asymmetry_params asymmetry_frame) ! 3 = Some (0.5 - 0.75)
    \<and> harvest_period (detector asymmetry_params asymmetry_frame) ! 3 \<noteq> None
    \<and> delta_mean (detector asymmetry_params asymmetry_frame) ! 3 \<noteq> None)
   \<and> (2 < length (mean asymmetry_frame) \<and> None \<notin> set (mean asymmetry_frame)
    \<and> rolled_mean (detector asymmetry_params asymmetry_frame) ! (2 - 1) = None
    \<and> delta_mean (detector asymmetry_params asymmetry_frame) ! 2 = None
    \<and> delta_mean (detector asymmetry_params asymmetry_frame) ! 1 = None
    \<and> delta_mean (detector asymmetry_params asymmetry_frame) ! 0 = None)
   \<and> (1 < length (mean asymmetry_frame)
    \<and> rolled_mean (detector asymmetry_params asymmetry_frame) ! 1 = None
    \<and> rolled_mean (detector asymmetry_params asymmetry_frame) ! 0 = None)"
proof -
  let ?out = "detector asymmetry_params asymmetry_frame"
  have l3: "3 < length (mean asymmetry_frame)" and l2: "2 < length (mean asymmetry_frame)"
    and l1: "1 < length (mean asymmetry_frame)"
    and nm: "None \<notin> set (mean asymmetry_frame)"
    by (simp_all add: asymmetry_frame_def)
  have r3: "rolled_mean ?out ! 3 = Some 0.5" and r2: "rolled_mean ?out ! (3 - 1) = Some 0.75"
    and r1: "rolled_mean ?out ! (2 - 1) = None" and r1': "rolled_mean ?out ! 1 = None"
    by (simp_all add: asymmetry_rolled)
  have h3: "harvest_period ?out ! 3 \<noteq> None"
    by (simp add: asymmetry_harvest)
  have d3: "delta_mean ?out ! 3 = Some (0.5 - 0.75)"
  proof -
    have "0 < (3::nat) \<and> rolled_mean ?out ! 3 = Some 0.5
        \<and> rolled_mean ?out ! (3 - 1) = Some 0.75"
      by (intro conjI r3 r2) simp
    with derived_columns_aligned [OF l3, of asymmetry_params] show ?thesis
      by blast
  qed
  have d3': "delta_mean ?out ! 3 \<noteq> None"
    using derived_columns_aligned [OF l3, of asymmetry_params] h3 by blast
  have d2: "delta_mean ?out ! 2 = None"
    using derived_columns_aligned [OF l2, of asymmetry_params] r1 by blast
  have d1: "delta_mean ?out ! 1 = None" and d0: "delta_mean ?out ! 0 = None"
    using derived_columns_aligned [OF l2, of asymmetry_params] nm d2 by simp_all
  have r0: "rolled_mean ?out ! 0 = None"
    using derived_columns_aligned [OF l1, of asymmetry_params] nm r1' by simp
  show ?thesis
    using l3 l2 l1 nm r3 r2 r1 r1' h3 d3 d3' d2 d1 d0 r0 by blast
qed

subsection \<open>The example series\<close>

text \<open>
  C6. On the example series with window 3, index threshold 0.15 and delta threshold 0.1,
  the only Harvest label is at row 6 (smoothed value 0.13, delta \<open>- 2 / 75\<close>, that is
  \<open>- 0.0266...\<close>) and the only Germination label is at row 8 (smoothed value 0.14,
  delta 0.01); row 7, where the delta is exactly zero, and every other row are unlabelled.
\<close>

theorem example_labels:
  "rolled_mean (detector example_params example_frame) ! 6 = Some 0.13
   \<and> delta_mean (detector example_params example_frame) ! 6 = Some (- (2 / 75))
   \<and> delta_mean (detector example_params example_frame) ! 7 = Some 0
   \<and> rolled_mean (detector example_params example_frame) ! 8 = Some 0.14
   \<and> delta_mean (detector example_params example_frame) ! 8 = Some 0.01
   \<and> harvest_period (detector example_params example_frame) =
        [None, None, None, None, None, None, Some 0.15, None, None]
   \<and> germination_period (detector example_params example_frame) =
        [None, None, None, None, None, None, None, None, Some 0.15]"
  by (simp add: example_rolled example_delta example_harvest example_germination)

subsection \<open>Series shorter than the configured window\<close>

text \<open>
  C7. The specification has a series shorter than the configured window receive no
  label. With the notebook's \<^verbatim>\<open>rolling_window = 14\<close>, a series of five rows is
  shorter than the window, yet the cell smooths over 3 rows and rows 3 and 4 receive the
  Harvest label.
\<close>

theorem short_series_labelled:
  "int (length (mean falling_frame)) < rolling_window notebook_params
   \<and> harvest_period (detector notebook_params falling_frame) =
        [None, None, None, Some 0.15, Some 0.15]"
  by (simp add: detector_def labeling_cell_def loc_assign_def harvest_mask_def mask_and_def
      series_lt_def series_le_def series_abs_def smoothing_cell_def Let_def rolling_mean_def
      window_mean_def diff_def shift1_def falling_frame_def notebook_params_def upt_rec)

subsection \<open>Constant series\<close>

text \<open>
  C8. For a constant series the delta is zero at every row where it is defined (the rows
  from 3 on), and no row receives a Harvest or a Germination label.
\<close>

theorem constant_series_unlabelled:
  assumes "mean df = replicate n (Some c)" and "i < n"
  shows "(delta_mean (detector p df) ! i = None \<or> delta_mean (detector p df) ! i = Some 0)
       \<and> (3 \<le> i \<longrightarrow> delta_mean (detector p df) ! i = Some 0)
       \<and> harvest_period (detector p df) ! i = None
       \<and> germination_period (detector p df) ! i = None"
proof -
  have len: "i < length (mean df)" using assms by simp
  have nm: "None \<notin> set (mean df)" using assms by simp
  have d: "delta_mean (detector p df) ! i = (if i < 3 then None else Some 0)"
  proof (cases "i < 3")
    case True
    with len show ?thesis
      using diff_rolled_3_None_iff [OF nm len] by (simp add: delta_mean_detector)
  next
    case False
    then obtain j where j: "i = Suc j" "2 \<le> j" by (cases i) auto
    with assms have "rolling_mean 3 (replicate n (Some c)) ! i = Some c"
      and "rolling_mean 3 (replicate n (Some c)) ! j = Some c"
      by (simp_all add: rolled_3_replicate)
    with assms j False show ?thesis
      by (simp add: delta_mean_detector nth_diff)
  qed
  show ?thesis
    using len d by (simp add: nth_harvest_period nth_germination_period)
qed

text \<open>
  Row 4 of a constant series of five values 0.1: the smoothed value 0.1 is below the
  index threshold, the delta is zero, and the row is unlabelled.
\<close>

theorem constant_series_unlabelled_witness:
  "mean constant_frame = replicate 5 (Some 0.1) \<and> (4::nat) < 5 \<and> (3::nat) \<le> 4
   \<and> rolled_mean (detector example_params constant_frame) ! 4 = Some 0.1
   \<and> delta_mean (detector example_params constant_frame) ! 4 = Some 0
   \<and> harvest_period (detector example_params constant_frame) ! 4 = None
   \<and> germination_period (detector example_params constant_frame) ! 4 = None"
proof -
  have m: "mean constant_frame = replicate 5 (Some 0.1)"
    by (simp add: constant_frame_def)
  have i: "(4::nat) < 5" by simp
  have r: "rolled_mean (detector example_params constant_frame) ! 4 = Some 0.1"
    by (simp add: rolled_mean_detector m rolled_3_replicate)
  show ?thesis
    using constant_series_unlabelled [OF m i, of example_params] m r by simp
qed

subsection \<open>What the label columns hold\<close>



subsection \<open>Independence of the timestamps\<close>

text \<open>
  C10. Two series with the same values, whatever their timestamps (of any type,
  unordered or repeated), have the same smoothed column, the same delta column and the
  same Harvest and Germination columns.
\<close>

theorem timestamps_never_read:
  assumes "mean df1 = mean df2"
  shows "rolled_mean (detector p df1) = rolled_mean (detector p df2)
       \<and> delta_mean (detector p df1) = delta_mean (detector p df2)
       \<and> harvest_period (detector p df1) = harvest_period (detector p df2)
       \<and> germination_period (detector p df1) = germination_period (detector p df2)"
  using assms
  by (simp add: detector_def labeling_cell_def smoothing_cell_def harvest_mask_def
      germination_mask_def Let_def)

text \<open>The example values under unordered, repeated timestamps get the example's labels.\<close>

theorem timestamps_never_read_witness:
  "mean example_frame = mean shuffled_example_frame
   \<and> \<not> sorted (timestamps shuffled_example_frame)
   \<and> \<not> distinct (timestamps shuffled_example_frame)
   \<and> rolled_mean (detector example_params shuffled_example_frame)
       = rolled_mean (detector example_params example_frame)
   \<and> delta_mean (detector example_params shuffled_example_frame)
       = delta_mean (detector example_params example_frame)
   \<and> harvest_period (detector example_params shuffled_example_frame)
       = [None, None, None, None, None, None, Some 0.15, None, None]
   \<and> germination_period (detector example_params shuffled_example_frame)
       = [None, None, None, None, None, None, None, None, Some 0.15]"
proof -
  have m: "mean example_frame = mean shuffled_example_frame"
    by (simp add: example_frame_def shuffled_example_frame_def)
  have u: "\<not> sorted (timestamps shuffled_example_frame)"
    "\<not> distinct (timestamps shuffled_example_frame)"
    by (simp_all add: shuffled_example_frame_def)
  show ?thesis
    using timestamps_never_read [OF m, of example_params] m u
    by (simp add: example_harvest example_germination)
qed

end
